theory Spec2Isabelle
  imports Complex_Main
begin

section \<open>JavaScript values used by the profile modules\<close>

text \<open>
  A JavaScript number is an IEEE double. The model keeps its three special values and
  takes a finite number as the real it denotes: arithmetic on finite numbers is exact
  (no rounding, no overflow to infinity) and there is one zero, which divides like +0.
\<close>

datatype number = Fin real | PosInf | NegInf | NaN

instantiation number :: "{plus, uminus, minus, times, inverse, ord}"
begin

fun plus_number :: "number \<Rightarrow> number \<Rightarrow> number" where
  "plus_number NaN y = NaN"
| "plus_number x NaN = NaN"
| "plus_number (Fin a) (Fin b) = Fin (a + b)"
| "plus_number PosInf NegInf = NaN"
| "plus_number NegInf PosInf = NaN"
| "plus_number PosInf y = PosInf"
| "plus_number NegInf y = NegInf"
| "plus_number (Fin a) y = y"

fun uminus_number :: "number \<Rightarrow> number" where
  "uminus_number (Fin a) = Fin (- a)"
| "uminus_number PosInf = NegInf"
| "uminus_number NegInf = PosInf"
| "uminus_number NaN = NaN"

definition minus_number :: "number \<Rightarrow> number \<Rightarrow> number" where
  "minus_number x y = x + (- y)"

fun times_number :: "number \<Rightarrow> number \<Rightarrow> number" where
  "times_number NaN y = NaN"
| "times_number x NaN = NaN"
| "times_number (Fin a) (Fin b) = Fin (a * b)"
| "times_number (Fin a) PosInf = (if a = 0 then NaN else if 0 < a then PosInf else NegInf)"
| "times_number (Fin a) NegInf = (if a = 0 then NaN else if 0 < a then NegInf else PosInf)"
| "times_number PosInf (Fin b) = (if b = 0 then NaN else if 0 < b then PosInf else NegInf)"
| "times_number NegInf (Fin b) = (if b = 0 then NaN else if 0 < b then NegInf else PosInf)"
| "times_number PosInf PosInf = PosInf"
| "times_number PosInf NegInf = NegInf"
| "times_number NegInf PosInf = NegInf"
| "times_number NegInf NegInf = PosInf"

fun divide_number :: "number \<Rightarrow> number \<Rightarrow> number" where
  "divide_number NaN y = NaN"
| "divide_number x NaN = NaN"
| "divide_number (Fin a) (Fin b) =
     (if b \<noteq> 0 then Fin (a / b) else if a = 0 then NaN else if 0 < a then PosInf else NegInf)"
| "divide_number (Fin a) y = Fin 0"
| "divide_number PosInf (Fin b) = (if 0 \<le> b then PosInf else NegInf)"
| "divide_number NegInf (Fin b) = (if 0 \<le> b then NegInf else PosInf)"
| "divide_number x y = NaN"

definition inverse_number :: "number \<Rightarrow> number" where
  "inverse_number x = Fin 1 div x"

text \<open>The relational operators \<^verbatim>\<open><=\<close> and \<^verbatim>\<open><\<close>: every comparison with NaN is false.\<close>

fun less_eq_number :: "number \<Rightarrow> number \<Rightarrow> bool" where
  "less_eq_number NaN y = False"
| "less_eq_number x NaN = False"
| "less_eq_number (Fin a) (Fin b) = (a \<le> b)"
| "less_eq_number NegInf y = True"
| "less_eq_number x PosInf = True"
| "less_eq_number x y = False"

fun less_number :: "number \<Rightarrow> number \<Rightarrow> bool" where
  "less_number NaN y = False"
| "less_number x NaN = False"
| "less_number (Fin a) (Fin b) = (a < b)"
| "less_number PosInf y = False"
| "less_number x NegInf = False"
| "less_number x y = True"

instance ..

end

text \<open>\<^verbatim>\<open>Math.min\<close>, \<^verbatim>\<open>Math.max\<close>, \<^verbatim>\<open>Math.pow\<close> with a literal natural exponent,
  \<^verbatim>\<open>Math.sqrt\<close> and \<^verbatim>\<open>Math.PI\<close>.\<close>

definition Math_min :: "number \<Rightarrow> number \<Rightarrow> number" where
  "Math_min x y = (if x = NaN \<or> y = NaN then NaN else if x \<le> y then x else y)"

definition Math_max :: "number \<Rightarrow> number \<Rightarrow> number" where
  "Math_max x y = (if x = NaN \<or> y = NaN then NaN else if x \<le> y then y else x)"

fun Math_pow :: "number \<Rightarrow> nat \<Rightarrow> number" where
  "Math_pow x 0 = Fin 1"
| "Math_pow (Fin a) n = Fin (a ^ n)"
| "Math_pow PosInf n = PosInf"
| "Math_pow NegInf n = (if even n then PosInf else NegInf)"
| "Math_pow NaN n = NaN"

fun Math_sqrt :: "number \<Rightarrow> number" where
  "Math_sqrt (Fin a) = (if a < 0 then NaN else Fin (sqrt a))"
| "Math_sqrt PosInf = PosInf"
| "Math_sqrt NegInf = NaN"
| "Math_sqrt NaN = NaN"

definition Math_PI :: number where
  "Math_PI = Fin pi"

text \<open>
  The values a dimensions object holds in this model: numbers, booleans, \<^verbatim>\<open>null\<close> and
  \<^verbatim>\<open>undefined\<close>. Strings and objects are left out; on the values kept, \<^verbatim>\<open>typeof\<close>,
  the conversion to a number and the operators are as in the language.
\<close>

datatype jsval = Number number | Boolean bool | Null | Undefined

fun typeof :: "jsval \<Rightarrow> string" where
  "typeof (Number x) = ''number''"
| "typeof (Boolean b) = ''boolean''"
| "typeof Null = ''object''"
| "typeof Undefined = ''undefined''"

fun ToNumber :: "jsval \<Rightarrow> number" where
  "ToNumber (Number x) = x"
| "ToNumber (Boolean b) = (if b then Fin 1 else Fin 0)"
| "ToNumber Null = Fin 0"
| "ToNumber Undefined = NaN"

text \<open>
  A dimensions object is a plain object: \<^verbatim>\<open>dim in dimensions\<close> asks whether the key is
  there, and reading a key that is not there gives \<^verbatim>\<open>undefined\<close>. None of the dimension
  names is a member of \<^verbatim>\<open>Object.prototype\<close>.
\<close>

type_synonym dimensions = "string \<rightharpoonup> jsval"

definition has :: "dimensions \<Rightarrow> string \<Rightarrow> bool" where
  "has dimensions key = (dimensions key \<noteq> None)"

definition get :: "dimensions \<Rightarrow> string \<Rightarrow> jsval" where
  "get dimensions key = (case dimensions key of None \<Rightarrow> Undefined | Some v \<Rightarrow> v)"

text \<open>An arithmetic or relational operator converts the operand it reads to a number.\<close>

definition num :: "dimensions \<Rightarrow> string \<Rightarrow> number" where
  "num dimensions key = ToNumber (get dimensions key)"


section \<open>Profile types and their dimension tables (profileTypes.js)\<close>

abbreviation ROUND_TUBE :: string where "ROUND_TUBE \<equiv> ''round_tube''"
abbreviation SQUARE_TUBE :: string where "SQUARE_TUBE \<equiv> ''square_tube''"
abbreviation RECTANGULAR_TUBE :: string where "RECTANGULAR_TUBE \<equiv> ''rectangular_tube''"
abbreviation ANGLE :: string where "ANGLE \<equiv> ''angle''"
abbreviation CHANNEL :: string where "CHANNEL \<equiv> ''channel''"
abbreviation I_BEAM :: string where "I_BEAM \<equiv> ''i_beam''"

text \<open>An object literal is the list of its own keys with their values, in source order.\<close>

definition ProfileType :: "(string \<times> string) list" where
  "ProfileType =
    [(''ROUND_TUBE'', ROUND_TUBE), (''SQUARE_TUBE'', SQUARE_TUBE),
     (''RECTANGULAR_TUBE'', RECTANGULAR_TUBE),
     (''ANGLE'', ANGLE), (''CHANNEL'', CHANNEL), (''I_BEAM'', I_BEAM)]"

definition RequiredDimensions :: "(string \<times> string list) list" where
  "RequiredDimensions =
    [(ROUND_TUBE, [''diameter'', ''thickness'', ''length'']),
     (SQUARE_TUBE, [''width'', ''thickness'', ''length'']),
     (RECTANGULAR_TUBE, [''width'', ''height'', ''thickness'', ''length'']),
     (ANGLE, [''width'', ''height'', ''thickness'', ''length'']),
     (CHANNEL, [''width'', ''height'', ''thickness'', ''length'', ''flange_width'']),
     (I_BEAM, [''width'', ''height'', ''web_thickness'', ''flange_thickness'', ''length''])]"

definition OptionalDimensions :: "(string \<times> string list) list" where
  "OptionalDimensions =
    [(ROUND_TUBE, [''outer_radius'']),
     (SQUARE_TUBE, [''outer_radius'', ''inner_radius'']),
     (RECTANGULAR_TUBE, [''outer_radius'', ''inner_radius'']),
     (ANGLE, [''inner_radius'', ''toe_radius'']),
     (CHANNEL, [''root_radius'', ''toe_radius'']),
     (I_BEAM, [''root_radius'', ''toe_radius'', ''k_dimension''])]"

text \<open>
  Reading \<^verbatim>\<open>obj[key]\<close> on an object literal gives the value of an own key, else the
  member of \<^verbatim>\<open>Object.prototype\<close> of that name (a function, or the prototype itself for
  \<^verbatim>\<open>__proto__\<close>), else \<^verbatim>\<open>undefined\<close>.
\<close>

definition Object_prototype :: "string list" where
  "Object_prototype =
    [''constructor'', ''__defineGetter__'', ''__defineSetter__'', ''hasOwnProperty'',
     ''__lookupGetter__'', ''__lookupSetter__'', ''isPrototypeOf'', ''propertyIsEnumerable'',
     ''toString'', ''valueOf'', ''__proto__'', ''toLocaleString'']"

datatype 'a property = Own 'a | Inherited string | Absent

definition member :: "(string \<times> 'a) list \<Rightarrow> string \<Rightarrow> 'a property" where
  "member obj key =
    (case map_of obj key of
       Some v \<Rightarrow> Own v
     | None \<Rightarrow> if key \<in> set Object_prototype then Inherited key else Absent)"

text \<open>Truthiness of a property whose own values are strings: an inherited member is an
  object, \<^verbatim>\<open>undefined\<close> and the empty string are falsy.\<close>

fun truthy :: "string property \<Rightarrow> bool" where
  "truthy (Own s) = (s \<noteq> [])"
| "truthy (Inherited k) = True"
| "truthy Absent = False"

section \<open>ProfileValidator.validateDimensions (profileTypes.js)\<close>

record ValidationResult =
  isValid :: bool
  errors :: "string list"
  warnings :: "string list"

datatype js_error = Error string | TypeError

definition fail :: "string \<Rightarrow> ValidationResult \<Rightarrow> ValidationResult" where
  \<comment> \<open>\<^verbatim>\<open>result.isValid = false; result.errors.push(msg)\<close>\<close>
  "fail msg result = result\<lparr>isValid := False, errors := errors result @ [msg]\<rparr>"

definition warn :: "string \<Rightarrow> ValidationResult \<Rightarrow> ValidationResult" where
  \<comment> \<open>\<^verbatim>\<open>result.warnings.push(msg)\<close>\<close>
  "warn msg result = result\<lparr>warnings := warnings result @ [msg]\<rparr>"

text \<open>The loop \<^verbatim>\<open>for (const dim of required)\<close>.\<close>

fun checkRequired :: "string list \<Rightarrow> dimensions \<Rightarrow> ValidationResult \<Rightarrow> ValidationResult" where
  "checkRequired [] dimensions result = result"
| "checkRequired (d # required) dimensions result =
     checkRequired required dimensions
       (if \<not> has dimensions d then
          fail (''Missing required dimension: '' @ d) result
        else if typeof (get dimensions d) \<noteq> ''number'' \<or> num dimensions d \<le> Fin 0 then
          fail (''Invalid value for '' @ d @ '': must be a positive number'') result
        else result)"

text \<open>The loop \<^verbatim>\<open>for (const dim of optional)\<close>.\<close>

fun checkOptional :: "string list \<Rightarrow> dimensions \<Rightarrow> ValidationResult \<Rightarrow> ValidationResult" where
  "checkOptional [] dimensions result = result"
| "checkOptional (d # optional) dimensions result =
     checkOptional optional dimensions
       (if has dimensions d then
          (if typeof (get dimensions d) \<noteq> ''number'' \<or> num dimensions d < Fin 0 then
             warn (''Invalid value for optional dimension '' @ d @
                   '': must be a non-negative number'') result
           else result)
        else result)"

text \<open>The \<^verbatim>\<open>switch (type)\<close> of the profile-specific validations; \<^verbatim>\<open>a >= b\<close> is
  \<^verbatim>\<open>b <= a\<close>.\<close>

definition checkProfile :: "string \<Rightarrow> dimensions \<Rightarrow> ValidationResult \<Rightarrow> ValidationResult" where
  "checkProfile type dimensions result =
    (if type = ROUND_TUBE then
       (if num dimensions ''diameter'' / Fin 2 \<le> num dimensions ''thickness'' then
          fail ''Thickness must be less than radius'' result
        else result)
     else if type = SQUARE_TUBE \<or> type = RECTANGULAR_TUBE then
       (if Math_min (num dimensions ''width'') (num dimensions ''height'') / Fin 2
             \<le> num dimensions ''thickness'' then
          fail ''Thickness must be less than half of the smallest dimension'' result
        else result)
     else if type = ANGLE then
       (if Math_min (num dimensions ''width'') (num dimensions ''height'')
             \<le> num dimensions ''thickness'' then
          fail ''Thickness must be less than width and height'' result
        else result)
     else result)"

text \<open>Everything after the type check, for the two lists read from the tables.\<close>

definition checks :: "string \<Rightarrow> string list \<Rightarrow> string list \<Rightarrow> dimensions \<Rightarrow> ValidationResult \<Rightarrow> ValidationResult" where
  "checks type required optional dimensions result =
     checkProfile type dimensions
       (checkOptional optional dimensions (checkRequired required dimensions result))"

text \<open>
  The type check is \<^verbatim>\<open>if (!ProfileType[type])\<close>: it reads \<^verbatim>\<open>type\<close> as a key of
  \<^verbatim>\<open>ProfileType\<close>. A type that passes it is then read as a key of
  \<^verbatim>\<open>RequiredDimensions\<close>, and \<^verbatim>\<open>for ... of\<close> over a value that is not an array
  (\<^verbatim>\<open>undefined\<close>, or a member of \<^verbatim>\<open>Object.prototype\<close>) throws a TypeError. The type
  argument is a string.
\<close>

definition validateDimensions :: "string \<Rightarrow> dimensions \<Rightarrow> js_error + ValidationResult" where
  "validateDimensions type dimensions =
    (let result = \<lparr>isValid = True, errors = [], warnings = []\<rparr> in
     if \<not> truthy (member ProfileType type) then
       Inr (fail (''Invalid profile type: '' @ type) result)
     else
       (case member RequiredDimensions type of
          Own required \<Rightarrow>
            (case member OptionalDimensions type of
               Own optional \<Rightarrow> Inr (checks type required optional dimensions result)
             | Inherited k \<Rightarrow> Inl TypeError
             | Absent \<Rightarrow> Inl TypeError)
        | Inherited k \<Rightarrow> Inl TypeError
        | Absent \<Rightarrow> Inl TypeError))"

text \<open>
  The test page profileTypes.html carries its own copy of the validator. It differs in
  the type check, \<^verbatim>\<open>if (!Object.values(ProfileType).includes(type))\<close>, and in logging; a
  type that passes this check is an own key of both tables.
\<close>

definition validateDimensions_page :: "string \<Rightarrow> dimensions \<Rightarrow> js_error + ValidationResult" where
  "validateDimensions_page type dimensions =
    (let result = \<lparr>isValid = True, errors = [], warnings = []\<rparr> in
     if type \<notin> set (map snd ProfileType) then
       Inr (fail (''Invalid profile type: '' @ type) result)
     else
       (case member RequiredDimensions type of
          Own required \<Rightarrow>
            (case member OptionalDimensions type of
               Own optional \<Rightarrow> Inr (checks type required optional dimensions result)
             | Inherited k \<Rightarrow> Inl TypeError
             | Absent \<Rightarrow> Inl TypeError)
        | Inherited k \<Rightarrow> Inl TypeError
        | Absent \<Rightarrow> Inl TypeError))"


section \<open>ProfileValidator.getDimensionLimits (profileTypes.js)\<close>

text \<open>A limit \<^verbatim>\<open>{ min, max }\<close> is the pair of its two numbers.\<close>

type_synonym limits = "(string \<times> real \<times> real) list"

definition commonLimits :: limits where
  "commonLimits = [(''length'', 1, 1000000), (''thickness'', 1 / 10, 100)]"

definition specificLimits :: "(string \<times> limits) list" where
  "specificLimits =
    [(ROUND_TUBE, (''diameter'', 1, 1000) # commonLimits),
     (SQUARE_TUBE, (''width'', 1, 1000) # commonLimits),
     (RECTANGULAR_TUBE, (''width'', 1, 1000) # (''height'', 1, 1000) # commonLimits),
     (ANGLE, (''width'', 1, 1000) # (''height'', 1, 1000) # commonLimits),
     (CHANNEL,
        (''width'', 1, 1000) # (''height'', 1, 1000) # (''flange_width'', 1, 500) # commonLimits),
     (I_BEAM,
        (''width'', 1, 1000) # (''height'', 1, 2000) # (''web_thickness'', 1 / 10, 100) #
        (''flange_thickness'', 1 / 10, 100) # commonLimits)]"

text \<open>\<^verbatim>\<open>return specificLimits[type] || {}\<close>: an own entry and an inherited member are
  truthy and returned as they are, \<^verbatim>\<open>undefined\<close> gives the empty object.\<close>

definition getDimensionLimits :: "string \<Rightarrow> limits property" where
  "getDimensionLimits type =
    (case member specificLimits type of
       Own l \<Rightarrow> Own l
     | Inherited k \<Rightarrow> Inherited k
     | Absent \<Rightarrow> Own [])"

section \<open>ProfileCalculator (profileCalculator.js)\<close>

definition unsupported :: "string \<Rightarrow> js_error" where
  \<comment> \<open>\<^verbatim>\<open>new Error(`Unsupported profile type: ${type}`)\<close>\<close>
  "unsupported type = Error (''Unsupported profile type: '' @ type)"

definition calculateArea :: "string \<Rightarrow> dimensions \<Rightarrow> js_error + number" where
  "calculateArea type dimensions =
    (if type = ROUND_TUBE then
       (let outerRadius = num dimensions ''diameter'' / Fin 2;
            innerRadius = outerRadius - num dimensions ''thickness''
        in Inr (Math_PI * (outerRadius * outerRadius - innerRadius * innerRadius)))
     else if type = SQUARE_TUBE then
       (let outer = num dimensions ''width'' * num dimensions ''width'';
            inner = (num dimensions ''width'' - Fin 2 * num dimensions ''thickness'') *
                    (num dimensions ''width'' - Fin 2 * num dimensions ''thickness'')
        in Inr (outer - inner))
     else if type = RECTANGULAR_TUBE then
       (let outer = num dimensions ''width'' * num dimensions ''height'';
            inner = (num dimensions ''width'' - Fin 2 * num dimensions ''thickness'') *
                    (num dimensions ''height'' - Fin 2 * num dimensions ''thickness'')
        in Inr (outer - inner))
     else if type = ANGLE then
       Inr ((num dimensions ''width'' + num dimensions ''height'' - num dimensions ''thickness'') *
            num dimensions ''thickness'')
     else if type = CHANNEL then
       Inr (num dimensions ''height'' * num dimensions ''thickness'' +
            Fin 2 * num dimensions ''flange_width'' * num dimensions ''thickness'')
     else if type = I_BEAM then
       Inr (num dimensions ''height'' * num dimensions ''web_thickness'' +
            Fin 2 * num dimensions ''width'' * num dimensions ''flange_thickness'')
     else Inl (unsupported type))"

definition calculateMomentOfInertiaX :: "string \<Rightarrow> dimensions \<Rightarrow> js_error + number" where
  "calculateMomentOfInertiaX type dimensions =
    (if type = ROUND_TUBE then
       (let outerRadius = num dimensions ''diameter'' / Fin 2;
            innerRadius = outerRadius - num dimensions ''thickness''
        in Inr ((Math_PI / Fin 4) * (Math_pow outerRadius 4 - Math_pow innerRadius 4)))
     else if type = SQUARE_TUBE then
       (let outer = Math_pow (num dimensions ''width'') 4 / Fin 12;
            inner = Math_pow (num dimensions ''width'' - Fin 2 * num dimensions ''thickness'') 4
                      / Fin 12
        in Inr (outer - inner))
     else if type = RECTANGULAR_TUBE then
       (let outer = (num dimensions ''width'' * Math_pow (num dimensions ''height'') 3) / Fin 12;
            inner = ((num dimensions ''width'' - Fin 2 * num dimensions ''thickness'') *
                     Math_pow (num dimensions ''height'' - Fin 2 * num dimensions ''thickness'') 3)
                      / Fin 12
        in Inr (outer - inner))
     else if type = ANGLE then
       (let h = num dimensions ''height'';
            b = num dimensions ''width'';
            t = num dimensions ''thickness''
        in case calculateArea type dimensions of
             Inl e \<Rightarrow> Inl e
           | Inr A \<Rightarrow>
               (let yc = (h * t * (h / Fin 2) + b * t * t / Fin 2) / A
                in Inr ((t * Math_pow h 3 / Fin 3) + (Math_pow t 3 * b / Fin 12) +
                        (h * t * Math_pow (h / Fin 2 - yc) 2) +
                        (b * t * Math_pow (t / Fin 2 - yc) 2))))
     else if type = CHANNEL then
       (let h = num dimensions ''height'';
            b = num dimensions ''flange_width'';
            t = num dimensions ''thickness''
        in Inr ((t * Math_pow h 3 / Fin 12) +
                Fin 2 * (b * Math_pow t 3 / Fin 12 + b * t * Math_pow (h / Fin 2) 2)))
     else if type = I_BEAM then
       (let h = num dimensions ''height'';
            b = num dimensions ''width'';
            tw = num dimensions ''web_thickness'';
            tf = num dimensions ''flange_thickness''
        in Inr ((tw * Math_pow (h - Fin 2 * tf) 3 / Fin 12) +
                Fin 2 * (b * Math_pow tf 3 / Fin 12 +
                         b * tf * Math_pow (h / Fin 2 - tf / Fin 2) 2)))
     else Inl (unsupported type))"

definition calculateSectionModulusX :: "string \<Rightarrow> dimensions \<Rightarrow> js_error + number" where
  "calculateSectionModulusX type dimensions =
    (case calculateMomentOfInertiaX type dimensions of
       Inl e \<Rightarrow> Inl e
     | Inr Ix \<Rightarrow>
         (if type = ROUND_TUBE then Inr (Ix / (num dimensions ''diameter'' / Fin 2))
          else if type = SQUARE_TUBE then Inr (Ix / (num dimensions ''width'' / Fin 2))
          else if type = RECTANGULAR_TUBE \<or> type = CHANNEL \<or> type = I_BEAM then
            Inr (Ix / (num dimensions ''height'' / Fin 2))
          else if type = ANGLE then
            (case calculateArea type dimensions of
               Inl e \<Rightarrow> Inl e
             | Inr A \<Rightarrow>
                 Inr (Ix /
                   Math_max
                     (num dimensions ''height'' -
                        (num dimensions ''height'' * num dimensions ''thickness'' *
                           (num dimensions ''height'' / Fin 2) +
                         num dimensions ''width'' * num dimensions ''thickness'' *
                           num dimensions ''thickness'' / Fin 2) / A)
                     ((num dimensions ''height'' * num dimensions ''thickness'' *
                         (num dimensions ''height'' / Fin 2) +
                       num dimensions ''width'' * num dimensions ''thickness'' *
                         num dimensions ''thickness'' / Fin 2) / A)))
          else Inl (unsupported type)))"

definition calculateWeightPerLength :: "string \<Rightarrow> dimensions \<Rightarrow> number \<Rightarrow> js_error + number" where
  "calculateWeightPerLength type dimensions density =
    (case calculateArea type dimensions of
       Inl e \<Rightarrow> Inl e
     | Inr area \<Rightarrow> Inr (area * density))"

definition calculateRadiusOfGyration :: "string \<Rightarrow> dimensions \<Rightarrow> js_error + number" where
  "calculateRadiusOfGyration type dimensions =
    (case calculateArea type dimensions of
       Inl e \<Rightarrow> Inl e
     | Inr area \<Rightarrow>
         (case calculateMomentOfInertiaX type dimensions of
            Inl e \<Rightarrow> Inl e
          | Inr Ix \<Rightarrow> Inr (Math_sqrt (Ix / area))))"


section \<open>Profile-specific validation rules (config/profiles.js)\<close>

text \<open>
  The configuration module holds the same six types and dimension tables, and the
  table \<^verbatim>\<open>ProfileValidation\<close> of rules \<^verbatim>\<open>{ check, message }\<close> per type.
\<close>

definition ProfileValidation :: "(string \<times> ((dimensions \<Rightarrow> bool) \<times> string) list) list" where
  "ProfileValidation =
    [(ROUND_TUBE,
        [(\<lambda>dimensions. num dimensions ''thickness'' < num dimensions ''diameter'' / Fin 2,
          ''Thickness must be less than radius'')]),
     (SQUARE_TUBE,
        [(\<lambda>dimensions. num dimensions ''thickness'' < num dimensions ''width'' / Fin 2,
          ''Thickness must be less than half of width'')]),
     (RECTANGULAR_TUBE,
        [(\<lambda>dimensions. num dimensions ''thickness''
             < Math_min (num dimensions ''width'') (num dimensions ''height'') / Fin 2,
          ''Thickness must be less than half of the smallest dimension'')]),
     (ANGLE,
        [(\<lambda>dimensions. num dimensions ''thickness''
             < Math_min (num dimensions ''width'') (num dimensions ''height''),
          ''Thickness must be less than width and height'')])]"

section \<open>Inputs of the repository's test pages, and the terms the properties use\<close>

text \<open>\<^verbatim>\<open>Object.values(ProfileType)\<close>: the six profile type strings.\<close>

definition Object_values :: "(string \<times> 'a) list \<Rightarrow> 'a list" where
  "Object_values obj = map snd obj"

text \<open>The result object as \<^verbatim>\<open>validateDimensions\<close> creates it.\<close>

definition fresh :: ValidationResult where
  "fresh = \<lparr>isValid = True, errors = [], warnings = []\<rparr>"

text \<open>What the type check returns when it fails.\<close>

definition invalidType :: "string \<Rightarrow> ValidationResult" where
  "invalidType type =
     \<lparr>isValid = False, errors = [''Invalid profile type: '' @ type], warnings = []\<rparr>"

text \<open>profileTypes.html: \<^verbatim>\<open>validRoundTube\<close>, and the same tube with a NaN diameter.\<close>

definition validRoundTube :: dimensions where
  "validRoundTube =
     [''diameter'' \<mapsto> Number (Fin 100), ''thickness'' \<mapsto> Number (Fin 5),
      ''length'' \<mapsto> Number (Fin 1000)]"

definition nanRoundTube :: dimensions where
  "nanRoundTube =
     [''diameter'' \<mapsto> Number NaN, ''thickness'' \<mapsto> Number (Fin 5),
      ''length'' \<mapsto> Number (Fin 1000)]"

text \<open>profileTypes.html: \<^verbatim>\<open>missingDimension\<close>, a square tube without its length.\<close>

definition missingDimension :: dimensions where
  "missingDimension = [''width'' \<mapsto> Number (Fin 100), ''thickness'' \<mapsto> Number (Fin 5)]"

text \<open>Square tubes whose wall is thicker than half the width, and thicker than the width.\<close>

definition thickSquareTube :: dimensions where
  "thickSquareTube =
     [''width'' \<mapsto> Number (Fin 100), ''thickness'' \<mapsto> Number (Fin 60),
      ''length'' \<mapsto> Number (Fin 1000)]"

definition solidSquareTube :: dimensions where
  "solidSquareTube =
     [''width'' \<mapsto> Number (Fin 100), ''thickness'' \<mapsto> Number (Fin 150),
      ''length'' \<mapsto> Number (Fin 1000)]"

text \<open>The calculator test page: \<^verbatim>\<open>testProfiles.angle\<close> and \<^verbatim>\<open>testProfiles.iBeam\<close>.\<close>

definition angleProfile :: dimensions where
  "angleProfile =
     [''width'' \<mapsto> Number (Fin 100), ''height'' \<mapsto> Number (Fin 100),
      ''thickness'' \<mapsto> Number (Fin 8), ''length'' \<mapsto> Number (Fin 1000)]"


text \<open>
  The specification's moment of inertia of an angle, in its words: the two legs are the
  rectangles of areas \<open>h t\<close> and \<open>b t\<close> with centroids at \<open>h / 2\<close> and \<open>t / 2\<close>, the
  total area is \<open>(b + h - t) t\<close>, the centroid is the quotient of the first moments by
  the area, and each leg contributes its own inertia plus its area times the squared
  offset of its centroid.
\<close>

definition angleInertia_spec :: "real \<Rightarrow> real \<Rightarrow> real \<Rightarrow> real" where
  "angleInertia_spec b h t =
    (let A = (b + h - t) * t;
         y = (h * t * (h / 2) + b * t * (t / 2)) / A
     in (t * h ^ 3 / 12 + h * t * (h / 2 - y) ^ 2) + (b * t ^ 3 / 12 + b * t * (t / 2 - y) ^ 2))"

text \<open>The two error messages of the required-dimension loop.\<close>

definition missing :: "string \<Rightarrow> string" where
  "missing d = ''Missing required dimension: '' @ d"

definition invalid :: "string \<Rightarrow> string" where
  "invalid d = ''Invalid value for '' @ d @ '': must be a positive number''"


text \<open>
  config/index.js, \<^verbatim>\<open>getProfileValidation\<close>: the field
  \<^verbatim>\<open>rules: ProfileValidation[profileType]?.rules || []\<close> of the object it returns. A
  member of \<^verbatim>\<open>Object.prototype\<close> has no \<^verbatim>\<open>rules\<close>.
\<close>

definition getProfileValidation_rules :: "string \<Rightarrow> ((dimensions \<Rightarrow> bool) \<times> string) list" where
  "getProfileValidation_rules profileType =
    (case member ProfileValidation profileType of
       Own rules \<Rightarrow> rules
     | Inherited k \<Rightarrow> []
     | Absent \<Rightarrow> [])"

text \<open>A result is consistent when it is valid exactly if it holds no error.\<close>

definition consistent :: "ValidationResult \<Rightarrow> bool" where
  "consistent r = (isValid r = (errors r = []))"

section \<open>Evaluation lemmas\<close>

lemma Math_pow_Fin [simp]: "Math_pow (Fin a) n = Fin (a ^ n)"
  by (cases n) simp_all

lemma supported_cases:
  "type \<in> set (Object_values ProfileType) \<Longrightarrow>
     type = ROUND_TUBE \<or> type = SQUARE_TUBE \<or> type = RECTANGULAR_TUBE \<or>
     type = ANGLE \<or> type = CHANNEL \<or> type = I_BEAM"
  by (simp add: Object_values_def ProfileType_def)

section \<open>The type check of the validator\<close>

text \<open>
  Whatever the dimensions, the module's validator ends in one of two ways: a type that
  is a key of \<^verbatim>\<open>ProfileType\<close> (or a member of \<^verbatim>\<open>Object.prototype\<close>) passes the type
  check and the loop over its missing list of required dimensions throws; every other
  type gets the invalid-type result. The checks after the type check are never run.
\<close>

lemma validateDimensions_cases:
  "validateDimensions type d =
     (if truthy (member ProfileType type) then Inl TypeError else Inr (invalidType type))"
  by (simp add: validateDimensions_def member_def ProfileType_def RequiredDimensions_def
      Object_prototype_def invalidType_def fail_def)

lemma supported_not_truthy:
  "type \<in> set (Object_values ProfileType) \<Longrightarrow> \<not> truthy (member ProfileType type)"
  by (drule supported_cases)
    (elim disjE; simp add: member_def ProfileType_def Object_prototype_def)

lemma validateDimensions_supported:
  "type \<in> set (Object_values ProfileType) \<Longrightarrow>
     validateDimensions type d = Inr (invalidType type)"
  by (simp add: validateDimensions_cases supported_not_truthy)

text \<open>The test page's copy runs the checks for exactly the six profile types.\<close>

lemma validateDimensions_page_supported:
  "type \<in> set (Object_values ProfileType) \<Longrightarrow>
     \<exists>required optional.
        map_of RequiredDimensions type = Some required \<and>
        map_of OptionalDimensions type = Some optional \<and>
        validateDimensions_page type d = Inr (checks type required optional d fresh)"
  apply (drule supported_cases)
  apply (elim disjE; simp add: validateDimensions_page_def member_def ProfileType_def
      RequiredDimensions_def OptionalDimensions_def fresh_def)
  done

lemma validateDimensions_page_unsupported:
  "type \<notin> set (Object_values ProfileType) \<Longrightarrow>
     validateDimensions_page type d = Inr (invalidType type)"
  by (simp add: validateDimensions_page_def Object_values_def invalidType_def fail_def)

text \<open>
  C1. The claim: a type outside the six profile type strings gets the invalid-type
  result and nothing else, and each of the six strings passes the type check, so that
  its required dimensions are checked. The module does the opposite for the six
  strings: each of them gets the invalid-type result, whatever the dimensions, and no
  required dimension is checked. The key \<^verbatim>\<open>ROUND_TUBE\<close>, which is not one of the six
  strings, passes the type check and the call throws. The test page's copy accepts the
  valid round tube of its test.
\<close>

theorem validateDimensions_rejects_profile_types:
  "validateDimensions ROUND_TUBE d = Inr (invalidType ROUND_TUBE) \<and>
   validateDimensions SQUARE_TUBE d = Inr (invalidType SQUARE_TUBE) \<and>
   validateDimensions RECTANGULAR_TUBE d = Inr (invalidType RECTANGULAR_TUBE) \<and>
   validateDimensions ANGLE d = Inr (invalidType ANGLE) \<and>
   validateDimensions CHANNEL d = Inr (invalidType CHANNEL) \<and>
   validateDimensions I_BEAM d = Inr (invalidType I_BEAM) \<and>
   validateDimensions ''ROUND_TUBE'' d = Inl TypeError \<and>
   validateDimensions_page ROUND_TUBE validRoundTube = Inr fresh"
  by (simp add: validateDimensions_cases member_def ProfileType_def Object_prototype_def
      validateDimensions_page_def RequiredDimensions_def OptionalDimensions_def
      checks_def checkProfile_def has_def get_def num_def validRoundTube_def fresh_def)

section \<open>The calculator on the test profiles\<close>




text \<open>
  C2. The claim: for an angle the calculator returns the parallel-axis sum of the
  specification, \<open>angleInertia_spec\<close>. The calculator's first term is
  \<open>t h\<^sup>3 / 3\<close> where the sum has \<open>t h\<^sup>3 / 12\<close>: for the angle of the test page,
  width 100, height 100 and thickness 8, it returns 10558075/3 and the sum of the
  specification is 4558075/3.
\<close>

theorem calculateMomentOfInertiaX_angleProfile:
  "calculateMomentOfInertiaX ANGLE angleProfile = Inr (Fin (10558075 / 3)) \<and>
   angleInertia_spec 100 100 8 = 4558075 / 3"
  by (simp add: calculateMomentOfInertiaX_def calculateArea_def angleProfile_def num_def
      get_def minus_number_def angleInertia_spec_def Let_def power2_eq_square power3_eq_cube)

text \<open>
  In general the calculator exceeds the specification's sum by \<open>t h\<^sup>3 / 4\<close>, for
  positive finite dimensions with \<open>t < b + h\<close> (a positive area).
\<close>

lemma calculateMomentOfInertiaX_angle_excess:
  assumes "d ''width'' = Some (Number (Fin b))" and "d ''height'' = Some (Number (Fin h))"
    and "d ''thickness'' = Some (Number (Fin t))"
    and "0 < b" and "0 < h" and "0 < t" and "t < b + h"
  shows "calculateMomentOfInertiaX ANGLE d = Inr (Fin (angleInertia_spec b h t + t * h ^ 3 / 4))"
proof -
  have A: "(b + h - t) * t \<noteq> 0"
    using assms by simp
  have "calculateArea ANGLE d = Inr (Fin ((b + h - t) * t))"
    using assms by (simp add: calculateArea_def num_def get_def minus_number_def)
  then show ?thesis
    using assms A
    by (simp add: calculateMomentOfInertiaX_def num_def get_def minus_number_def
        angleInertia_spec_def Let_def)
qed

section \<open>Unsupported profile types in the calculator\<close>

lemma calculateArea_unsupported:
  "type \<notin> set (Object_values ProfileType) \<Longrightarrow> calculateArea type d = Inl (unsupported type)"
  by (simp add: Object_values_def ProfileType_def calculateArea_def)

lemma calculateMomentOfInertiaX_unsupported:
  "type \<notin> set (Object_values ProfileType) \<Longrightarrow>
     calculateMomentOfInertiaX type d = Inl (unsupported type)"
  by (simp add: Object_values_def ProfileType_def calculateMomentOfInertiaX_def)

lemma calculateArea_supported:
  "type \<in> set (Object_values ProfileType) \<Longrightarrow> \<not> isl (calculateArea type d)"
  by (drule supported_cases) (elim disjE; simp add: calculateArea_def Let_def)

lemma calculateMomentOfInertiaX_supported:
  "type \<in> set (Object_values ProfileType) \<Longrightarrow> \<not> isl (calculateMomentOfInertiaX type d)"
  by (drule supported_cases)
    (elim disjE; simp add: calculateMomentOfInertiaX_def calculateArea_def Let_def)

lemma calculateSectionModulusX_supported:
  "type \<in> set (Object_values ProfileType) \<Longrightarrow> \<not> isl (calculateSectionModulusX type d)"
  by (drule supported_cases)
    (elim disjE; simp add: calculateSectionModulusX_def calculateMomentOfInertiaX_def
      calculateArea_def Let_def)

text \<open>
  C5. For a type that is not one of the six profile type strings, each of the five
  operations of the calculator throws the error "Unsupported profile type" and returns
  no number; for each of the six strings every operation returns a number.
\<close>

theorem calculator_unsupported_type:
  "(type \<notin> set (Object_values ProfileType) \<longrightarrow>
      calculateArea type d = Inl (unsupported type) \<and>
      calculateMomentOfInertiaX type d = Inl (unsupported type) \<and>
      calculateSectionModulusX type d = Inl (unsupported type) \<and>
      calculateWeightPerLength type d density = Inl (unsupported type) \<and>
      calculateRadiusOfGyration type d = Inl (unsupported type)) \<and>
   (type \<in> set (Object_values ProfileType) \<longrightarrow>
      \<not> isl (calculateArea type d) \<and>
      \<not> isl (calculateMomentOfInertiaX type d) \<and>
      \<not> isl (calculateSectionModulusX type d) \<and>
      \<not> isl (calculateWeightPerLength type d density) \<and>
      \<not> isl (calculateRadiusOfGyration type d))"
proof (intro conjI impI)
  assume u: "type \<notin> set (Object_values ProfileType)"
  show "calculateArea type d = Inl (unsupported type)"
    using u by (rule calculateArea_unsupported)
  show "calculateMomentOfInertiaX type d = Inl (unsupported type)"
    using u by (rule calculateMomentOfInertiaX_unsupported)
  show "calculateSectionModulusX type d = Inl (unsupported type)"
    by (simp add: calculateSectionModulusX_def calculateMomentOfInertiaX_unsupported [OF u])
  show "calculateWeightPerLength type d density = Inl (unsupported type)"
    by (simp add: calculateWeightPerLength_def calculateArea_unsupported [OF u])
  show "calculateRadiusOfGyration type d = Inl (unsupported type)"
    by (simp add: calculateRadiusOfGyration_def calculateArea_unsupported [OF u])
next
  assume s: "type \<in> set (Object_values ProfileType)"
  show a: "\<not> isl (calculateArea type d)"
    using s by (rule calculateArea_supported)
  show i: "\<not> isl (calculateMomentOfInertiaX type d)"
    using s by (rule calculateMomentOfInertiaX_supported)
  show "\<not> isl (calculateSectionModulusX type d)"
    using s by (rule calculateSectionModulusX_supported)
  show "\<not> isl (calculateWeightPerLength type d density)"
    using a by (cases "calculateArea type d") (simp_all add: calculateWeightPerLength_def)
  show "\<not> isl (calculateRadiusOfGyration type d)"
    using a i
    by (cases "calculateArea type d"; cases "calculateMomentOfInertiaX type d")
      (simp_all add: calculateRadiusOfGyration_def)
qed

text \<open>C5 at the type \<^verbatim>\<open>hexagon\<close>, which is unsupported, and at \<^verbatim>\<open>angle\<close>.\<close>

theorem calculator_unsupported_type_witness:
  "calculateArea ''hexagon'' angleProfile
     = Inl (Error ''Unsupported profile type: hexagon'') \<and>
   calculateMomentOfInertiaX ''hexagon'' angleProfile
     = Inl (Error ''Unsupported profile type: hexagon'') \<and>
   calculateSectionModulusX ''hexagon'' angleProfile
     = Inl (Error ''Unsupported profile type: hexagon'') \<and>
   calculateWeightPerLength ''hexagon'' angleProfile (Fin 7850)
     = Inl (Error ''Unsupported profile type: hexagon'') \<and>
   calculateRadiusOfGyration ''hexagon'' angleProfile
     = Inl (Error ''Unsupported profile type: hexagon'') \<and>
   \<not> isl (calculateArea ANGLE angleProfile) \<and>
   \<not> isl (calculateMomentOfInertiaX ANGLE angleProfile) \<and>
   \<not> isl (calculateSectionModulusX ANGLE angleProfile) \<and>
   \<not> isl (calculateWeightPerLength ANGLE angleProfile (Fin 7850)) \<and>
   \<not> isl (calculateRadiusOfGyration ANGLE angleProfile)"
  using calculator_unsupported_type [of "''hexagon''" angleProfile "Fin 7850"]
    calculator_unsupported_type [of ANGLE angleProfile "Fin 7850"]
  by (simp add: Object_values_def ProfileType_def unsupported_def)


section \<open>The checks after the type check\<close>

lemma fail_invalid:
  "\<not> isValid (fail m r) \<and> errors (fail m r) \<noteq> [] \<and> m \<in> set (errors (fail m r))"
  by (simp add: fail_def)

lemma fail_keeps: "x \<in> set (errors r) \<Longrightarrow> x \<in> set (errors (fail m r))"
  by (simp add: fail_def)

lemma warn_same: "isValid (warn m r) = isValid r \<and> errors (warn m r) = errors r"
  by (simp add: warn_def)

lemma checkRequired_keeps:
  "x \<in> set (errors r) \<Longrightarrow> x \<in> set (errors (checkRequired required d r))"
  by (induction required arbitrary: r) (simp_all add: fail_keeps)

lemma checkRequired_stays_invalid:
  "\<not> isValid r \<Longrightarrow> \<not> isValid (checkRequired required d r)"
  by (induction required arbitrary: r) (simp_all add: fail_invalid)

lemma checkRequired_consistent:
  "consistent r \<Longrightarrow> consistent (checkRequired required d r)"
  by (induction required arbitrary: r) (simp_all add: consistent_def fail_invalid)

lemma checkOptional_same:
  "isValid (checkOptional optional d r) = isValid r \<and>
   errors (checkOptional optional d r) = errors r"
  by (induction optional arbitrary: r) (simp_all add: warn_same)

lemma checkProfile_consistent:
  "consistent r \<Longrightarrow> consistent (checkProfile type d r)"
  by (simp add: checkProfile_def consistent_def fail_invalid)

lemma checks_consistent:
  "consistent r \<Longrightarrow> consistent (checks type required optional d r)"
  unfolding checks_def
  by (rule checkProfile_consistent)
    (simp add: consistent_def checkOptional_same checkRequired_consistent [unfolded consistent_def])

lemma fresh_consistent: "consistent fresh"
  by (simp add: consistent_def fresh_def)

lemma invalidType_consistent: "consistent (invalidType type)"
  by (simp add: consistent_def invalidType_def)

lemma validateDimensions_page_validRoundTube:
  "validateDimensions_page ROUND_TUBE validRoundTube = Inr fresh"
  by (simp add: validateDimensions_page_def member_def ProfileType_def RequiredDimensions_def
      OptionalDimensions_def checks_def checkProfile_def has_def get_def num_def
      validRoundTube_def fresh_def)

text \<open>
  C10. Every result of the validator is valid exactly when it holds no error: this
  holds of the fresh result, the type check and every later check keep it, an appended
  error makes the result invalid, and the checks of the optional dimensions change
  neither the validity nor the errors. It holds for the module's validator, for the
  test page's copy, and for the checks after the type check run on any two lists.
\<close>

theorem validation_result_consistent:
  "(validateDimensions type d = Inr r \<longrightarrow> isValid r = (errors r = [])) \<and>
   (validateDimensions_page type d = Inr r \<longrightarrow> isValid r = (errors r = [])) \<and>
   (isValid r = (errors r = []) \<longrightarrow>
      isValid (checks type required optional d r)
        = (errors (checks type required optional d r) = [])) \<and>
   isValid fresh \<and> errors fresh = [] \<and>
   \<not> isValid (fail m r) \<and> errors (fail m r) \<noteq> [] \<and>
   isValid (checkOptional optional d r) = isValid r \<and>
   errors (checkOptional optional d r) = errors r"
proof (intro conjI impI)
  assume "validateDimensions type d = Inr r"
  then have "r = invalidType type"
    by (simp add: validateDimensions_cases split: if_splits)
  then show "isValid r = (errors r = [])"
    using invalidType_consistent by (simp add: consistent_def)
next
  assume p: "validateDimensions_page type d = Inr r"
  show "isValid r = (errors r = [])"
  proof (cases "type \<in> set (Object_values ProfileType)")
    case True
    then obtain required optional where "r = checks type required optional d fresh"
      using validateDimensions_page_supported [of type d] p by auto
    then show ?thesis
      using checks_consistent [OF fresh_consistent] by (simp add: consistent_def)
  next
    case False
    then have "r = invalidType type"
      using validateDimensions_page_unsupported [of type d] p by simp
    then show ?thesis
      using invalidType_consistent by (simp add: consistent_def)
  qed
next
  assume "isValid r = (errors r = [])"
  then show "isValid (checks type required optional d r)
        = (errors (checks type required optional d r) = [])"
    using checks_consistent [of r] by (simp add: consistent_def)
qed (simp_all add: fresh_def fail_invalid checkOptional_same)

text \<open>
  C10 at the valid round tube of the test page, for the module and for the page's
  copy, and at the empty dimensions object for the checks of a round tube.
\<close>

theorem validation_result_consistent_witness:
  "validateDimensions ROUND_TUBE validRoundTube = Inr (invalidType ROUND_TUBE) \<and>
   isValid (invalidType ROUND_TUBE) = (errors (invalidType ROUND_TUBE) = []) \<and>
   validateDimensions_page ROUND_TUBE validRoundTube = Inr fresh \<and>
   isValid fresh = (errors fresh = []) \<and>
   isValid (checks ROUND_TUBE [''diameter'', ''thickness'', ''length''] [''outer_radius'']
              Map.empty fresh)
     = (errors (checks ROUND_TUBE [''diameter'', ''thickness'', ''length'']
                  [''outer_radius''] Map.empty fresh) = [])"
  using validation_result_consistent
      [of ROUND_TUBE validRoundTube "invalidType ROUND_TUBE"]
    validation_result_consistent
      [of ROUND_TUBE validRoundTube fresh]
    validation_result_consistent
      [of ROUND_TUBE Map.empty fresh "[''diameter'', ''thickness'', ''length'']"
        "[''outer_radius'']"]
    validateDimensions_supported [of ROUND_TUBE validRoundTube]
    validateDimensions_page_validRoundTube
  by (simp add: fresh_def Object_values_def ProfileType_def)


section \<open>The required dimensions\<close>

lemma checkRequired_missing:
  "k \<in> set required \<Longrightarrow> \<not> has d k \<Longrightarrow>
     missing k \<in> set (errors (checkRequired required d r)) \<and>
     \<not> isValid (checkRequired required d r)"
proof (induction required arbitrary: r)
  case Nil
  then show ?case by simp
next
  case (Cons a required)
  show ?case
  proof (cases "a = k")
    case True
    then show ?thesis
      using Cons.prems
      by (simp add: missing_def checkRequired_keeps checkRequired_stays_invalid fail_invalid)
  next
    case False
    then have "k \<in> set required"
      using Cons.prems by simp
    then show ?thesis
      using Cons.IH Cons.prems by simp
  qed
qed

lemma checkRequired_invalid:
  "k \<in> set required \<Longrightarrow> has d k \<Longrightarrow>
   typeof (get d k) \<noteq> ''number'' \<or> num d k \<le> Fin 0 \<Longrightarrow>
     invalid k \<in> set (errors (checkRequired required d r)) \<and>
     \<not> isValid (checkRequired required d r)"
proof (induction required arbitrary: r)
  case Nil
  then show ?case by simp
next
  case (Cons a required)
  show ?case
  proof (cases "a = k")
    case True
    then show ?thesis
      using Cons.prems
      by (auto simp add: invalid_def checkRequired_keeps checkRequired_stays_invalid
          fail_invalid)
  next
    case False
    then have "k \<in> set required"
      using Cons.prems by simp
    then show ?thesis
      using Cons.IH Cons.prems by simp
  qed
qed

lemma checkRequired_accepts:
  "\<forall>k\<in>set required. d k = Some (Number NaN) \<or> d k = Some (Number PosInf) \<or>
       (\<exists>x>0. d k = Some (Number (Fin x))) \<Longrightarrow>
   checkRequired required d r = r"
  by (induction required arbitrary: r) (auto simp add: has_def get_def num_def)

lemma checkProfile_keeps:
  "x \<in> set (errors r) \<Longrightarrow> x \<in> set (errors (checkProfile type d r))"
  by (simp add: checkProfile_def fail_keeps)

lemma checkProfile_stays_invalid:
  "\<not> isValid r \<Longrightarrow> \<not> isValid (checkProfile type d r)"
  by (simp add: checkProfile_def fail_invalid)

lemma checks_keeps:
  "x \<in> set (errors (checkRequired required d r)) \<Longrightarrow>
     x \<in> set (errors (checks type required optional d r))"
  by (simp add: checks_def checkProfile_keeps checkOptional_same)

lemma checks_stays_invalid:
  "\<not> isValid (checkRequired required d r) \<Longrightarrow>
     \<not> isValid (checks type required optional d r)"
  by (simp add: checks_def checkProfile_stays_invalid checkOptional_same)

text \<open>
  What the checks after the type check report, run on any list of required names: the
  error "Missing required dimension" for every name of the list that is absent from
  the dimensions, and the error "Invalid value" for every name that is present with a
  value that is not of type number or is at most 0; in both cases the result is
  invalid, and an earlier error does not stop the loop. When every name of the list
  holds NaN, +Infinity or a positive finite number, the loop over the required names
  changes nothing.
\<close>

lemma checks_report_required:
  "(k \<in> set required \<and> \<not> has d k \<longrightarrow>
      missing k \<in> set (errors (checks type required optional d r)) \<and>
      \<not> isValid (checks type required optional d r)) \<and>
   (k \<in> set required \<and> has d k \<and>
    (typeof (get d k) \<noteq> ''number'' \<or> num d k \<le> Fin 0) \<longrightarrow>
      invalid k \<in> set (errors (checks type required optional d r)) \<and>
      \<not> isValid (checks type required optional d r)) \<and>
   ((\<forall>k\<in>set required. d k = Some (Number NaN) \<or> d k = Some (Number PosInf) \<or>
        (\<exists>x>0. d k = Some (Number (Fin x)))) \<longrightarrow>
      checkRequired required d r = r)"
  using checkRequired_missing [of k required d r] checkRequired_invalid [of k required d r]
    checkRequired_accepts [of required d r]
    checks_keeps [of _ required d r type optional]
    checks_stays_invalid [of required d r type optional]
  by blast

text \<open>
  C6. The claim: for each of the six profile types the validator adds an error naming
  every required dimension that is absent, and an error for every required dimension
  whose value is not a positive finite number, NaN and +Infinity among them. For the
  square tube without its length the module returns the invalid-type result, which
  names no dimension, where the test page's copy reports the missing length. For the
  round tube with a NaN diameter the module returns the invalid-type result again, and
  past the type check nothing reports the diameter: the loop over the required
  dimensions adds no error for NaN or +Infinity, whose type is number and which are
  not at most 0, and the test page's copy returns a valid result.
\<close>

theorem validateDimensions_required_dimensions:
  "validateDimensions SQUARE_TUBE missingDimension = Inr (invalidType SQUARE_TUBE) \<and>
   validateDimensions_page SQUARE_TUBE missingDimension
     = Inr \<lparr>isValid = False, errors = [missing ''length''], warnings = []\<rparr> \<and>
   validateDimensions ROUND_TUBE nanRoundTube = Inr (invalidType ROUND_TUBE) \<and>
   checkRequired [''diameter'', ''thickness'', ''length''] nanRoundTube fresh = fresh \<and>
   checkRequired [''diameter'', ''thickness'', ''length'']
       [''diameter'' \<mapsto> Number PosInf, ''thickness'' \<mapsto> Number (Fin 5),
        ''length'' \<mapsto> Number (Fin 1000)] fresh = fresh \<and>
   validateDimensions_page ROUND_TUBE nanRoundTube = Inr fresh"
  by (simp add: validateDimensions_cases member_def ProfileType_def Object_prototype_def
      validateDimensions_page_def RequiredDimensions_def OptionalDimensions_def
      checks_def checkProfile_def has_def get_def num_def nanRoundTube_def fresh_def
      missingDimension_def missing_def fail_def Math_min_def)

section \<open>The thickness of a square tube\<close>

text \<open>
  The profile-specific check of a square tube shares its case with the rectangular
  tube and reads \<^verbatim>\<open>dimensions.height\<close>. Without a height the minimum is NaN and the
  comparison is false: the check adds nothing.
\<close>

lemma checkProfile_square_without_height:
  "\<not> has d ''height'' \<Longrightarrow> checkProfile SQUARE_TUBE d r = r"
  by (simp add: checkProfile_def has_def num_def get_def Math_min_def)

text \<open>
  C3. The claim: a square tube with positive width, thickness and length and no
  height gets the thickness error exactly when \<open>thickness \<ge> width / 2\<close>. For width
  100, thickness 60 and length 1000 the module returns the invalid-type result, and
  past the type check nothing reports the thickness: the profile-specific check adds no
  error and the test page's copy returns a valid result with no error. The rule of
  the configuration module for a square tube, \<open>thickness < width / 2\<close>, is false
  at these dimensions.
\<close>

theorem validateDimensions_thickSquareTube:
  "validateDimensions SQUARE_TUBE thickSquareTube = Inr (invalidType SQUARE_TUBE) \<and>
   validateDimensions_page SQUARE_TUBE thickSquareTube = Inr fresh \<and>
   checkProfile SQUARE_TUBE thickSquareTube fresh = fresh \<and>
   map (\<lambda>rule. fst rule thickSquareTube) (getProfileValidation_rules SQUARE_TUBE) = [False]"
  by (simp add: validateDimensions_cases member_def ProfileType_def Object_prototype_def
      validateDimensions_page_def RequiredDimensions_def OptionalDimensions_def
      checks_def checkProfile_def has_def get_def num_def thickSquareTube_def fresh_def
      Math_min_def getProfileValidation_rules_def ProfileValidation_def)

section \<open>Validated dimensions and the area\<close>

text \<open>
  No result of the module's validator is valid, whatever the type and the dimensions:
  the module validates no dimensions at all.
\<close>

lemma validateDimensions_never_valid:
  "validateDimensions type d = Inr r \<Longrightarrow> \<not> isValid r"
  by (auto simp add: validateDimensions_cases invalidType_def split: if_splits)

text \<open>
  In the test page's copy the square tube of width 100, thickness 150 and length 1000
  passes validation, and the calculator gives it the area -30000.
\<close>

lemma validateDimensions_page_solidSquareTube:
  "validateDimensions_page SQUARE_TUBE solidSquareTube = Inr fresh \<and>
   isValid fresh \<and>
   calculateArea SQUARE_TUBE solidSquareTube = Inr (Fin (- 30000))"
  by (simp add: validateDimensions_page_def member_def ProfileType_def
      RequiredDimensions_def OptionalDimensions_def checks_def checkProfile_def has_def
      get_def num_def solidSquareTube_def fresh_def Math_min_def calculateArea_def
      minus_number_def)

section \<open>Table reads with an unknown type\<close>

text \<open>
  C9, as the code has it. For a type that is neither one of the six profile type
  strings nor the name of a member of \<^verbatim>\<open>Object.prototype\<close>, reading the tables of
  required dimensions, optional dimensions and validation rules gives
  \<^verbatim>\<open>undefined\<close>, the rules default to the empty list and
  \<^verbatim>\<open>getDimensionLimits\<close> returns the empty object: no error is signalled. For the
  name of a member of \<^verbatim>\<open>Object.prototype\<close> each read gives that member.
\<close>

theorem registry_unknown_type:
  "(type \<notin> set (Object_values ProfileType) \<and> type \<notin> set Object_prototype \<longrightarrow>
      member RequiredDimensions type = Absent \<and>
      member OptionalDimensions type = Absent \<and>
      member ProfileValidation type = Absent \<and>
      getProfileValidation_rules type = [] \<and>
      getDimensionLimits type = Own []) \<and>
   (type \<in> set Object_prototype \<longrightarrow>
      member RequiredDimensions type = Inherited type \<and>
      member OptionalDimensions type = Inherited type \<and>
      member ProfileValidation type = Inherited type \<and>
      getProfileValidation_rules type = [] \<and>
      getDimensionLimits type = Inherited type)"
  by (auto simp add: Object_values_def ProfileType_def member_def RequiredDimensions_def
      OptionalDimensions_def ProfileValidation_def getDimensionLimits_def specificLimits_def
      Object_prototype_def getProfileValidation_rules_def)

text \<open>C9 at the types \<^verbatim>\<open>invalid_type\<close> and \<^verbatim>\<open>constructor\<close>.\<close>

theorem registry_unknown_type_witness:
  "member RequiredDimensions ''invalid_type'' = Absent \<and>
   member OptionalDimensions ''invalid_type'' = Absent \<and>
   member ProfileValidation ''invalid_type'' = Absent \<and>
   getProfileValidation_rules ''invalid_type'' = [] \<and>
   getDimensionLimits ''invalid_type'' = Own [] \<and>
   getDimensionLimits ''constructor'' = Inherited ''constructor''"
  using registry_unknown_type [of "''invalid_type''"] registry_unknown_type [of "''constructor''"]
  by (simp add: Object_values_def ProfileType_def Object_prototype_def)

text \<open>
  C9, as the claim states it, fails at the type \<^verbatim>\<open>invalid_type\<close>:
  \<^verbatim>\<open>getDimensionLimits\<close> returns the empty limits object.
\<close>

theorem getDimensionLimits_invalid_type:
  "getDimensionLimits ''invalid_type'' = Own []"
  by (simp add: getDimensionLimits_def member_def specificLimits_def Object_prototype_def)

section \<open>Weight per unit length\<close>








end
